theory Spec2Isabelle
  imports Main
begin

section \<open>Python primitives used by the bot\<close>

text \<open>
  Strings are ASCII character lists. The functions below model the behaviour of the
  Python built-ins on ASCII text; every exception of the source is a value.
\<close>

datatype exn =
    ValueError string
  | IndexError
  | KeyError
  | TypeError
  | AttributeError

text \<open>\<^verbatim>\<open>str.isspace\<close> on one ASCII character: TAB, LF, VT, FF, CR, FS, GS, RS, US, SPACE.\<close>

definition is_space :: "char \<Rightarrow> bool" where
  "is_space c = (let n = of_char c :: nat in (9 \<le> n \<and> n \<le> 13) \<or> (28 \<le> n \<and> n \<le> 32))"

definition is_digit :: "char \<Rightarrow> bool" where
  "is_digit c = (let n = of_char c :: nat in 48 \<le> n \<and> n \<le> 57)"

definition digit_val :: "char \<Rightarrow> int" where
  "digit_val c = int (of_char c) - 48"

definition digit_char :: "nat \<Rightarrow> char" where
  "digit_char n = ''0123456789'' ! (n mod 10)"

text \<open>\<^verbatim>\<open>s.isdigit()\<close>: every character is a digit and there is at least one.\<close>

definition isdigit :: "string \<Rightarrow> bool" where
  "isdigit s = (s \<noteq> [] \<and> list_all is_digit s)"

text \<open>\<^verbatim>\<open>s.split()\<close>: the maximal runs of non-whitespace characters.\<close>

fun split_acc :: "string \<Rightarrow> string \<Rightarrow> string list" where
  "split_acc cur [] = (if cur = [] then [] else [cur])"
| "split_acc cur (c # cs) =
     (if is_space c
      then (if cur = [] then split_acc [] cs else cur # split_acc [] cs)
      else split_acc (cur @ [c]) cs)"

definition py_split :: "string \<Rightarrow> string list" where
  "py_split s = split_acc [] s"

text \<open>\<^verbatim>\<open>sep.join(xs)\<close>.\<close>

fun join :: "string \<Rightarrow> string list \<Rightarrow> string" where
  "join sep [] = []"
| "join sep [x] = x"
| "join sep (x # y # ys) = x @ sep @ join sep (y # ys)"

text \<open>
  \<^verbatim>\<open>int(s)\<close> for a string in base 10: surrounding whitespace is ignored, one sign is
  allowed, and single underscores may separate digits. \<open>None\<close> stands for the
  \<^verbatim>\<open>ValueError\<close> Python raises. The whitespace \<^verbatim>\<open>int\<close> ignores around an ASCII string is
  narrower than that of \<^verbatim>\<open>str.split\<close>: TAB, LF, VT, FF, CR and SPACE only, so the
  separators FS, GS, RS and US make the string invalid. A literal of more than 4300
  digits, which newer interpreters refuse, is longer than a message of the chat service
  can be.
\<close>

definition is_int_space :: "char \<Rightarrow> bool" where
  "is_int_space c = (let n = of_char c :: nat in (9 \<le> n \<and> n \<le> 13) \<or> n = 32)"

definition int_strip :: "string \<Rightarrow> string" where
  "int_strip s = rev (dropWhile is_int_space (rev (dropWhile is_int_space s)))"

fun digits_value :: "bool \<Rightarrow> int \<Rightarrow> string \<Rightarrow> int option" where
  "digits_value after_digit acc [] = (if after_digit then Some acc else None)"
| "digits_value after_digit acc (c # cs) =
     (if is_digit c then digits_value True (acc * 10 + digit_val c) cs
      else if c = CHR ''_'' \<and> after_digit then digits_value False acc cs
      else None)"

definition py_int :: "string \<Rightarrow> int option" where
  "py_int s =
     (case int_strip s of
        [] \<Rightarrow> None
      | c # cs \<Rightarrow>
          if c = CHR ''+'' then digits_value False 0 cs
          else if c = CHR ''-'' then map_option uminus (digits_value False 0 cs)
          else digits_value False 0 (c # cs))"

text \<open>\<^verbatim>\<open>str(n)\<close> for an integer, and the format \<^verbatim>\<open>f"{n:+}"\<close> that always shows the sign.\<close>

function str_nat :: "nat \<Rightarrow> string" where
  "str_nat n = (if n < 10 then [digit_char n] else str_nat (n div 10) @ [digit_char (n mod 10)])"
  by pat_completeness auto
termination
  by (relation "measure id") auto

definition str_int :: "int \<Rightarrow> string" where
  "str_int i = (if i < 0 then CHR ''-'' # str_nat (nat (- i)) else str_nat (nat i))"

definition str_plus :: "int \<Rightarrow> string" where
  "str_plus i = (if i < 0 then str_int i else CHR ''+'' # str_int i)"

definition truthy :: "string option \<Rightarrow> bool" where
  "truthy s = (case s of None \<Rightarrow> False | Some t \<Rightarrow> t \<noteq> [])"

text \<open>
  The \<^verbatim>\<open>ValueError\<close> of \<^verbatim>\<open>int\<close>, which shows the literal between single quotes (the form
  \<^verbatim>\<open>repr\<close> gives a string of printable characters without quotes or backslashes).
\<close>

definition int_error :: "string \<Rightarrow> exn" where
  "int_error s =
     ValueError (''invalid literal for int() with base 10: '' @ [CHR 0x27] @ s @ [CHR 0x27])"

section \<open>Stored rolls (storyteller/databases/database.py)\<close>

text \<open>
  A row of the table \<^verbatim>\<open>SavedRolls\<close>. The table is the list of its rows; \<^verbatim>\<open>fetchone\<close>
  returns the first row of a result set.
\<close>

record saved_roll =
  ID :: int
  Name :: string
  Syntax :: string
  Guild :: int
  Comment :: "string option"

type_synonym saved_rolls = "saved_roll list"

text \<open>
  The operator \<^verbatim>\<open>ILIKE\<close>: the query argument is the pattern, in which \<^verbatim>\<open>%\<close> stands for
  any sequence of characters and \<^verbatim>\<open>_\<close> for any one character; the other characters
  are compared without regard to (ASCII) case. The escape character of the operator does
  not occur in a macro name, which the patterns of the source restrict to word
  characters and hyphens.
\<close>

definition lower :: "char \<Rightarrow> char" where
  "lower c =
     (case map_of (zip ''ABCDEFGHIJKLMNOPQRSTUVWXYZ'' ''abcdefghijklmnopqrstuvwxyz'') c of
        Some l \<Rightarrow> l
      | None \<Rightarrow> c)"

fun ilike :: "string \<Rightarrow> string \<Rightarrow> bool" where
  "ilike [] s = (s = [])"
| "ilike (p # ps) [] = (p = CHR ''%'' \<and> ilike ps [])"
| "ilike (p # ps) (c # cs) =
     (if p = CHR ''%'' then ilike ps (c # cs) \<or> ilike (p # ps) cs
      else (p = CHR ''_'' \<or> lower p = lower c) \<and> ilike ps cs)"

definition selected :: "int \<Rightarrow> int \<Rightarrow> string \<Rightarrow> saved_roll \<Rightarrow> bool" where
  "selected guild userid name r = (Guild r = guild \<and> ID r = userid \<and> ilike name (Name r))"

definition retrieve_stored_roll ::
  "saved_rolls \<Rightarrow> int \<Rightarrow> int \<Rightarrow> string \<Rightarrow> (string \<times> string option) option" where
  "retrieve_stored_roll db guild userid name =
     (case filter (selected guild userid name) db of
        [] \<Rightarrow> None
      | r # _ \<Rightarrow> Some (Syntax r, Comment r))"

definition is_roll_stored :: "saved_rolls \<Rightarrow> int \<Rightarrow> int \<Rightarrow> string \<Rightarrow> bool" where
  "is_roll_stored db guild userid name = (retrieve_stored_roll db guild userid name \<noteq> None)"

text \<open>
  \<^verbatim>\<open>__find_similar_macro\<close>: the trigram similarity of the database extension is a
  parameter, \<open>similar stored wanted\<close> standing for \<^verbatim>\<open>SIMILARITY(Name, wanted) > 0.2\<close>.
\<close>

definition find_similar_macro ::
  "(string \<Rightarrow> string \<Rightarrow> bool) \<Rightarrow> saved_rolls \<Rightarrow> int \<Rightarrow> int \<Rightarrow> string \<Rightarrow> string option" where
  "find_similar_macro similar db guild userid name =
     (case filter (\<lambda>r. Guild r = guild \<and> ID r = userid \<and> similar (Name r) name) db of
        [] \<Rightarrow> None
      | r # _ \<Rightarrow> Some (Name r))"

text \<open>
  An \<^verbatim>\<open>UPDATE\<close> statement: the database writes a new version of every row the statement
  changes, and a query without \<^verbatim>\<open>ORDER BY\<close> reads the rows in the order they were written,
  so the changed rows come behind the rows the statement left alone.
\<close>

definition sql_update :: "('r \<Rightarrow> bool) \<Rightarrow> ('r \<Rightarrow> 'r) \<Rightarrow> 'r list \<Rightarrow> 'r list" where
  "sql_update affected change rows =
     filter (\<lambda>r. \<not> affected r) rows @ map change (filter affected rows)"

text \<open>\<^verbatim>\<open>__store_roll\<close> returns its message and the table after the statement it executed.\<close>

definition store_roll ::
  "saved_rolls \<Rightarrow> int \<Rightarrow> int \<Rightarrow> string \<Rightarrow> string \<Rightarrow> string option \<Rightarrow> string \<times> saved_rolls" where
  "store_roll db guild userid name syn com =
     (if \<not> is_roll_stored db guild userid name
      then (''Saved new macro: `'' @ name @ ''`.'',
            db @ [\<lparr>ID = userid, Name = name, Syntax = syn, Guild = guild, Comment = com\<rparr>])
      else if truthy com
      then (''Updated `'' @ name @ ''` syntax and comment.'',
            sql_update (selected guild userid name)
              (\<lambda>r. r\<lparr>Syntax := syn, Comment := com\<rparr>) db)
      else (''Updated `'' @ name @ ''` syntax.'',
            sql_update (selected guild userid name) (\<lambda>r. r\<lparr>Syntax := syn\<rparr>) db))"

text \<open>
  The command dictionary (a \<^verbatim>\<open>defaultdict\<close> whose missing keys read as \<^verbatim>\<open>None\<close>) and
  the groups of a match of the pattern \<^verbatim>\<open>usex\<close>.
\<close>

record command =
  cmd_syntax :: string
  cmd_comment :: "string option"
  cmd_override :: "string option"
  cmd_compact :: "string option"

record usex_match =
  grp_name :: string
  grp_mods :: "string option"
  grp_sign :: "string option"

datatype reply = Raise exn | Msg string | ReturnCommand

text \<open>
  Lines 112 to 114: the stored syntax, split, gets a default difficulty when it has one
  token or when its second token does not start with a digit. The source inserts the
  integer 6; the element at index 1 is read once by \<^verbatim>\<open>int\<close> at most and is overwritten
  with a string before the tokens are joined, so the token here is the string \<^verbatim>\<open>6\<close>.
\<close>

definition with_default_diff :: "string list \<Rightarrow> exn + string list" where
  "with_default_diff toks =
     (case toks of
        [] \<Rightarrow> Inl IndexError
      | [t0] \<Rightarrow> Inr [t0, ''6'']
      | t0 # t1 # rest \<Rightarrow>
          (case t1 of
             [] \<Rightarrow> Inl IndexError
           | c # _ \<Rightarrow> if is_digit c then Inr (t0 # t1 # rest) else Inr (t0 # ''6'' # t1 # rest)))"

text \<open>
  Lines 137 to 142: the syntax is written to the command, and the stored comment is
  used when there is one and the command has none of its own.
\<close>

definition finish :: "saved_rolls \<Rightarrow> string option \<Rightarrow> string \<Rightarrow> command \<Rightarrow> reply \<times> command \<times> saved_rolls" where
  "finish db stored_comment syn c =
     (ReturnCommand,
      (c\<lparr>cmd_syntax := syn\<rparr>)
        \<lparr>cmd_comment := (if truthy stored_comment \<and> \<not> truthy (cmd_comment c)
                         then stored_comment else cmd_comment c)\<rparr>,
      db)"

text \<open>
  \<^verbatim>\<open>__match_stored_roll\<close>. The result is the reply, the command dictionary after the
  call (the source mutates it in place) and the table, which the call only reads.
\<close>

definition match_stored_roll ::
  "(string \<Rightarrow> string \<Rightarrow> bool) \<Rightarrow> saved_rolls \<Rightarrow> command \<Rightarrow> usex_match \<Rightarrow> int \<Rightarrow> int
     \<Rightarrow> reply \<times> command \<times> saved_rolls" where
  "match_stored_roll similar db command m guild userid =
     (case retrieve_stored_roll db guild userid (grp_name m) of
        None \<Rightarrow>
          (if truthy (find_similar_macro similar db guild userid (grp_name m))
           then (Msg (''`'' @ grp_name m @ ''` not found. Did you mean `''
                      @ the (find_similar_macro similar db guild userid (grp_name m)) @ ''`?''),
                 command, db)
           else (Msg (''Sorry, you have no macro named `'' @ grp_name m @ ''`!''), command, db))
      | Some (stored, stored_comment) \<Rightarrow>
          (if \<not> truthy (grp_mods m) then finish db stored_comment stored command
           else
             (case py_split (the (grp_mods m)) of
                [] \<Rightarrow> (Raise IndexError, command, db)
              | m0 # ms \<Rightarrow>
             (case py_int m0 of
                None \<Rightarrow> (Raise (int_error m0), command, db)
              | Some pool_mod \<Rightarrow>
             if pool_mod \<noteq> 0 \<and> \<not> truthy (grp_sign m)
             then (Msg ''Pool modifiers must be zero or have a +/- sign.'', command, db)
             else
             (let pool_desc =
                    (if pool_mod \<noteq> 0 then ''Pool '' @ str_plus pool_mod @ ''. '' else [])
              in case with_default_diff (py_split stored) of
                   Inl e \<Rightarrow> (Raise e, command, db)
                 | Inr toks \<Rightarrow>
             (case py_int (toks ! 0) of
                None \<Rightarrow> (Raise (int_error (toks ! 0)), command, db)
              | Some pool \<Rightarrow>
             (let toks = toks[0 := str_int (pool + pool_mod)];
                  diff_mod = (case ms of [] \<Rightarrow> ''+0'' | m1 # _ \<Rightarrow> m1)
              in if isdigit diff_mod
                 then finish db stored_comment (join '' '' (toks[1 := diff_mod]))
                        (command\<lparr>cmd_override :=
                           Some (pool_desc @ ''Diff. to '' @ diff_mod @ ''.'')\<rparr>)
                 else
             (case py_int diff_mod of
                None \<Rightarrow> (Raise (int_error diff_mod), command, db)
              | Some diff \<Rightarrow>
             (case py_int (toks ! 1) of
                None \<Rightarrow> (Raise (int_error (toks ! 1)), command, db)
              | Some current_diff \<Rightarrow>
                  finish db stored_comment (join '' '' (toks[1 := str_int (current_diff + diff)]))
                    (command\<lparr>cmd_override :=
                       Some (pool_desc
                             @ (if diff \<noteq> 0 then ''Diff. '' @ str_plus diff @ ''.'' else []))\<rparr>))))))))))"

section \<open>Server settings (storyteller/databases/settings.py)\<close>

text \<open>The values a setting can hold, with \<^verbatim>\<open>str\<close> and truthiness.\<close>

datatype pyval = PNone | PBool bool | PInt int | PStr string

definition py_str :: "pyval \<Rightarrow> string" where
  "py_str v =
     (case v of
        PNone \<Rightarrow> ''None''
      | PBool b \<Rightarrow> (if b then ''True'' else ''False'')
      | PInt i \<Rightarrow> str_int i
      | PStr s \<Rightarrow> s)"

definition py_truth :: "pyval \<Rightarrow> bool" where
  "py_truth v =
     (case v of
        PNone \<Rightarrow> False
      | PBool b \<Rightarrow> b
      | PInt i \<Rightarrow> i \<noteq> 0
      | PStr s \<Rightarrow> s \<noteq> [])"

text \<open>
  \<^verbatim>\<open>distutils.util.strtobool\<close> of the Python standard library: the argument is
  lower-cased and looked up in two fixed lists; \<open>None\<close> stands for its \<^verbatim>\<open>ValueError\<close>.
\<close>

definition strtobool :: "string \<Rightarrow> bool option" where
  "strtobool val =
     (let v = map lower val
      in if v \<in> set [''y'', ''yes'', ''t'', ''true'', ''on'', ''1''] then Some True
         else if v \<in> set [''n'', ''no'', ''f'', ''false'', ''off'', ''0''] then Some False
         else None)"

text \<open>
  The keys of \<^verbatim>\<open>__PARAMETERS\<close> in the order of the dictionary literal. The literal names
  the key \<^verbatim>\<open>xpl_always\<close> twice (once through the constant \<^verbatim>\<open>XPL_ALWAYS\<close>), which leaves
  one entry.
\<close>

definition DEFAULT_DIFF :: string where "DEFAULT_DIFF = ''default_diff''"
definition PREFIX :: string where "PREFIX = ''prefix''"
definition XPL_ALWAYS :: string where "XPL_ALWAYS = ''xpl_always''"
definition NEVER_DOUBLE :: string where "NEVER_DOUBLE = ''never_double''"
definition NULLIFY_ONES :: string where "NULLIFY_ONES = ''nullify_ones''"
definition NO_BOTCH :: string where "NO_BOTCH = ''no_botch''"
definition CHRONICLES :: string where "CHRONICLES = ''chronicles''"

definition available_parameters :: "string list" where
  "available_parameters =
     [PREFIX, ''use_compact'', DEFAULT_DIFF, ''xpl_always'', NEVER_DOUBLE, ''always_double'',
      NULLIFY_ONES, NO_BOTCH, ''wp_cancelable'', CHRONICLES]"

text \<open>
  The state of a \<^verbatim>\<open>SettingsDB\<close>. Dictionaries are objects in a store, so that two
  references to one dictionary are two occurrences of one address. A dictionary is its
  entries and, for a \<^verbatim>\<open>defaultdict\<close>, the value its factory returns for a missing key.
  \<^item> \<open>GuildSettings\<close>: the rows of the table, each the guild id and its columns;
  \<^item> \<open>store\<close>: the dictionary object at each address (a reference always leads to
    an object);
  \<^item> \<open>all_settings\<close>: the entries of \<^verbatim>\<open>__all_settings\<close>, from a guild (\<open>None\<close> outside any
    guild) to the address of its dictionary. \<^verbatim>\<open>__all_settings\<close> is itself a
    \<^verbatim>\<open>defaultdict\<close>, whose factory returns the one object \<^verbatim>\<open>default_params\<close>.
\<close>

record dict_obj =
  entries :: "string \<rightharpoonup> pyval"
  factory :: "pyval option"

record settings_db =
  GuildSettings :: "(int \<times> (string \<rightharpoonup> pyval)) list"
  store :: "nat \<Rightarrow> dict_obj"
  all_settings :: "int option \<rightharpoonup> nat"

text \<open>The address of \<^verbatim>\<open>default_params\<close>, the first dictionary \<^verbatim>\<open>__fetch_all_settings\<close> creates.\<close>

definition default_params :: nat where
  "default_params = 0"

text \<open>
  \<^verbatim>\<open>__fetch_all_settings\<close>: one new dictionary for each row, holding the row's value of
  every available parameter.
\<close>

fun fetch_rows ::
  "(int \<times> (string \<rightharpoonup> pyval)) list \<Rightarrow> nat \<Rightarrow> (nat \<Rightarrow> dict_obj) \<Rightarrow> (int option \<rightharpoonup> nat)
     \<Rightarrow> (nat \<Rightarrow> dict_obj) \<times> (int option \<rightharpoonup> nat)" where
  "fetch_rows [] next st settings = (st, settings)"
| "fetch_rows ((guild, row) # results) next st settings =
     fetch_rows results (Suc next)
       (st(next := \<lparr>entries = (\<lambda>param. if param \<in> set available_parameters
                                         then Some (case row param of Some v \<Rightarrow> v | None \<Rightarrow> PNone)
                                         else None),
                     factory = None\<rparr>))
       (settings(Some guild \<mapsto> next))"

definition fetch_all_settings :: "(int \<times> (string \<rightharpoonup> pyval)) list \<Rightarrow> settings_db" where
  "fetch_all_settings rows =
     (let defaults = \<lparr>entries = [DEFAULT_DIFF \<mapsto> PInt 6, PREFIX \<mapsto> PNone],
                      factory = Some (PBool False)\<rparr>;
          (st, settings) = fetch_rows rows (Suc default_params)
                             ((\<lambda>a. \<lparr>entries = Map.empty, factory = None\<rparr>)
                                (default_params := defaults)) Map.empty
      in \<lparr>GuildSettings = rows, store = st, all_settings = settings\<rparr>)"

text \<open>
  \<^verbatim>\<open>self.__all_settings[guild]\<close>: a guild without an entry gets one, the address the
  factory returns.
\<close>

definition settings_for_guild :: "settings_db \<Rightarrow> int option \<Rightarrow> nat \<times> settings_db" where
  "settings_for_guild db guild =
     (case all_settings db guild of
        Some a \<Rightarrow> (a, db)
      | None \<Rightarrow> (default_params, db\<lparr>all_settings := (all_settings db)(guild \<mapsto> default_params)\<rparr>))"

text \<open>\<^verbatim>\<open>d[key]\<close> and \<^verbatim>\<open>d[key] = value\<close> for the dictionary at an address.\<close>

definition dict_get :: "settings_db \<Rightarrow> nat \<Rightarrow> string \<Rightarrow> (exn + pyval) \<times> settings_db" where
  "dict_get db a key =
     (let d = store db a
      in case entries d key of
           Some v \<Rightarrow> (Inr v, db)
         | None \<Rightarrow>
             (case factory d of
                None \<Rightarrow> (Inl KeyError, db)
              | Some v \<Rightarrow>
                  (Inr v, db\<lparr>store := (store db)(a := d\<lparr>entries := (entries d)(key \<mapsto> v)\<rparr>)\<rparr>)))"

definition dict_set :: "settings_db \<Rightarrow> nat \<Rightarrow> string \<Rightarrow> pyval \<Rightarrow> settings_db" where
  "dict_set db a key v =
     (let d = store db a
      in db\<lparr>store := (store db)(a := d\<lparr>entries := (entries d)(key \<mapsto> v)\<rparr>)\<rparr>)"

text \<open>What \<^verbatim>\<open>settings_for_guild(guild)[key]\<close> evaluates to.\<close>

definition setting :: "settings_db \<Rightarrow> int option \<Rightarrow> string \<Rightarrow> exn + pyval" where
  "setting db guild key =
     (let (a, db') = settings_for_guild db guild in fst (dict_get db' a key))"

text \<open>\<^verbatim>\<open>int(x)\<close> for a setting value; \<^verbatim>\<open>int(None)\<close> is a \<^verbatim>\<open>TypeError\<close>.\<close>

definition int_of :: "pyval \<Rightarrow> exn + int" where
  "int_of v =
     (case v of
        PNone \<Rightarrow> Inl TypeError
      | PBool b \<Rightarrow> Inr (if b then 1 else 0)
      | PInt i \<Rightarrow> Inr i
      | PStr s \<Rightarrow> (case py_int s of None \<Rightarrow> Inl (int_error s) | Some i \<Rightarrow> Inr i))"

definition validated_parameter :: "string \<Rightarrow> pyval \<Rightarrow> exn + pyval" where
  "validated_parameter key new_value =
     (if key \<notin> set available_parameters
      then Inl (ValueError (''Unknown setting `'' @ key @ ''`!''))
      else if key = DEFAULT_DIFF
      then (case int_of new_value of
              Inl (ValueError _) \<Rightarrow>
                Inl (ValueError (''Error! `'' @ key @ ''` must be an integer between 2-10.''))
            | Inl e \<Rightarrow> Inl e
            | Inr i \<Rightarrow>
                if 2 \<le> i \<and> i \<le> 10 then Inr (PInt i)
                else Inl (ValueError (''Error! `'' @ key @ ''` must be an integer between 2-10.'')))
      else if key = PREFIX then Inr new_value
      else (case new_value of
              PStr s \<Rightarrow>
                (case strtobool s of
                   Some b \<Rightarrow> Inr (PBool b)
                 | None \<Rightarrow> Inl (ValueError (''Error! `'' @ key @ ''` must be `true` or `false`!'')))
            | _ \<Rightarrow> Inl AttributeError))"

text \<open>
  The statement \<^verbatim>\<open>UPDATE GuildSettings SET key=value WHERE ID=guild\<close>. The rows stay where
  they are in the list: the table is only read into a dictionary with the guild as key,
  for which the order of the rows does not matter.
\<close>

definition execute_update ::
  "(int \<times> (string \<rightharpoonup> pyval)) list \<Rightarrow> string \<Rightarrow> pyval \<Rightarrow> int option
     \<Rightarrow> (int \<times> (string \<rightharpoonup> pyval)) list" where
  "execute_update rows key v guild =
     map (\<lambda>(i, row). if Some i = guild then (i, row(key \<mapsto> v)) else (i, row)) rows"

text \<open>
  The two statements of \<^verbatim>\<open>update\<close> that write the validated value: the \<^verbatim>\<open>UPDATE\<close> statement
  and the assignment \<^verbatim>\<open>self.__all_settings[guild][key] = value\<close>.
\<close>

definition store_parameter :: "settings_db \<Rightarrow> int option \<Rightarrow> string \<Rightarrow> pyval \<Rightarrow> settings_db" where
  "store_parameter db guild key v =
     (let db1 = db\<lparr>GuildSettings := execute_update (GuildSettings db) key v guild\<rparr>;
          (a, db2) = settings_for_guild db1 guild
      in dict_set db2 a key v)"

text \<open>
  \<^verbatim>\<open>update\<close> returns its message, or the exception it raises, and the state it leaves. The
  Chronicles branch calls \<^verbatim>\<open>update\<close> again, for four other keys.
\<close>

function update :: "settings_db \<Rightarrow> int option \<Rightarrow> string \<Rightarrow> pyval \<Rightarrow> (exn + string) \<times> settings_db" where
  "update db guild key val =
     (case validated_parameter key val of
        Inl e \<Rightarrow> (Inl e, db)
      | Inr v \<Rightarrow>
          (let db3 = store_parameter db guild key v;
               message = ''Setting `'' @ key @ ''` to `'' @ py_str v @ ''`!''
           in if key = PREFIX
              then (if py_truth v
                    then (case v of
                            PStr s \<Rightarrow>
                              (Inr (''Setting the prefix to `'' @ s @ ''`.''
                                    @ (if length s > 3
                                       then '' A prefix this long might be annoying to type!''
                                       else [])), db3)
                          | _ \<Rightarrow> (Inl TypeError, db3))
                    else (Inr ''Reset the command prefix to `/m` and `!m`.'', db3))
              else if key = CHRONICLES
              then (case update db3 guild DEFAULT_DIFF (PInt (if py_truth v then 8 else 6)) of
                      (Inl e, db4) \<Rightarrow> (Inl e, db4)
                    | (Inr _, db4) \<Rightarrow>
                   (case update db4 guild XPL_ALWAYS (PStr (py_str v)) of
                      (Inl e, db5) \<Rightarrow> (Inl e, db5)
                    | (Inr _, db5) \<Rightarrow>
                   (case update db5 guild NULLIFY_ONES (PStr (py_str v)) of
                      (Inl e, db6) \<Rightarrow> (Inl e, db6)
                    | (Inr _, db6) \<Rightarrow>
                   (case update db6 guild NO_BOTCH (PStr (py_str v)) of
                      (Inl e, db7) \<Rightarrow> (Inl e, db7)
                    | (Inr _, db7) \<Rightarrow>
                        (Inr ((if py_truth v then ''Enabling'' else ''Disabling'')
                              @ '' Chronicles of Darkness mode.''), db7)))))
              else (Inr message, db3)))"
  by pat_completeness auto
termination
  by (relation "measure (\<lambda>(db, guild, key, val). if key = CHRONICLES then 1 else 0)")
     (auto simp: CHRONICLES_def DEFAULT_DIFF_def XPL_ALWAYS_def NULLIFY_ONES_def NO_BOTCH_def)

declare update.simps [simp del]

section \<open>Traditional rolls (tzimisce/parse/traditional.py)\<close>

text \<open>
  The embed is the record of the arguments \<^verbatim>\<open>build_embed\<close> is called with. What
  \<^verbatim>\<open>__traditional_roll\<close> sends is a string in compact mode and an embed otherwise.
\<close>

record roll_embed =
  emb_author :: string
  emb_header :: string
  emb_color :: nat
  emb_fields :: "(string \<times> string \<times> bool) list"
  emb_footer :: "string option"
  emb_description :: "string option"

datatype send = Text string | Embed roll_embed

text \<open>
  \<^verbatim>\<open>__traditional_roll\<close>. The pair \<open>(rolls, rolling_initiative)\<close> is what
  \<^verbatim>\<open>roll.traditional.roll_from_string(syntax)\<close> returned: that function draws the dice and
  is not part of this module, so its result is an argument here.
\<close>

definition traditional_roll ::
  "string \<Rightarrow> command \<Rightarrow> int list \<times> bool \<Rightarrow> bool \<times> send" where
  "traditional_roll author command from_string =
     (let (rolls, rolling_initiative) = from_string;
          result = str_int (sum_list rolls);
          suggestion = ''Rolling initiative? Try the /mi command!'';
          suggested = rolling_initiative;
          comment = (if rolling_initiative
                     then (if truthy (cmd_comment command)
                           then Some (the (cmd_comment command) @ [CHR 0x0A] @ suggestion)
                           else Some suggestion)
                     else cmd_comment command);
          description = (if length rolls > 1 then Some (join ''+'' (map str_int rolls)) else None)
      in if truthy (cmd_compact command)
         then (let compact_string = (if truthy description then the description @ '' ='' else []);
                   compact_string = compact_string @ '' '' @ result;
                   compact_string = (if truthy comment
                                     then compact_string @ [CHR 0x0A] @ ''> '' @ the comment
                                     else compact_string)
               in (suggested, Text compact_string))
         else (suggested,
               Embed \<lparr>emb_author = author, emb_header = cmd_syntax command, emb_color = 0,
                      emb_fields = [(''Result'', result, False)], emb_footer = comment,
                      emb_description = description\<rparr>))"

text \<open>
  The values a description shows, for the properties of the description: the parts
  between its \<^verbatim>\<open>+\<close> signs (\<^verbatim>\<open>description.split("+")\<close>), each read by \<^verbatim>\<open>int\<close>.
\<close>

fun split_on :: "char \<Rightarrow> string \<Rightarrow> string list" where
  "split_on c [] = [[]]"
| "split_on c (x # xs) =
     (if x = c then [] # split_on c xs
      else (case split_on c xs of
              [] \<Rightarrow> [[x]]
            | h # t \<Rightarrow> (x # h) # t))"

definition shown_values :: "string \<Rightarrow> int option list" where
  "shown_values description = map py_int (split_on CHR ''+'' description)"

section \<open>Initiative entries (tzimisce/initiative/initiative.py)\<close>

text \<open>
  Modelled from the spec: the dice primitive \<^verbatim>\<open>roll.Traditional.roll\<close> is not among the
  sources. The spec has it draw each face uniformly from 1 to the number of sides; here
  every face is computed from one raw random number, and the list has one face for each
  raw number it is given.
\<close>

definition Traditional_roll :: "nat list \<Rightarrow> nat \<Rightarrow> int list" where
  "Traditional_roll raw sides = map (\<lambda>r. 1 + int (r mod sides)) raw"

record Initiative =
  imod :: int
  die :: int
  action :: "string option"

text \<open>\<^verbatim>\<open>Initiative.__init__\<close>, with the raw random number it may need.\<close>

definition new_Initiative :: "nat \<Rightarrow> int \<Rightarrow> int option \<Rightarrow> string option \<Rightarrow> Initiative" where
  "new_Initiative raw m d a =
     \<lparr>imod = m,
      die = (case d of
               Some x \<Rightarrow> if x \<noteq> 0 then x else Traditional_roll [raw] 10 ! 0
             | None \<Rightarrow> Traditional_roll [raw] 10 ! 0),
      action = a\<rparr>"

definition init :: "Initiative \<Rightarrow> int" where
  "init i = imod i + die i"

definition reroll :: "nat \<Rightarrow> Initiative \<Rightarrow> Initiative" where
  "reroll raw i = i\<lparr>die := Traditional_roll [raw] 10 ! 0, action := None\<rparr>"

definition Initiative_str :: "Initiative \<Rightarrow> string" where
  "Initiative_str i =
     ''*'' @ str_int (die i) @ '' + '' @ str_int (imod i) @ '':*   **'' @ str_int (init i) @ ''**''"

section \<open>The initiative command (storyteller/parse/initiative.py)\<close>

text \<open>
  Modelled from the spec: the class \<^verbatim>\<open>InitiativeManager\<close> and the registry of tables
  (\<^verbatim>\<open>storyteller.initiative\<close>) are not among the sources. After the spec, a table is the
  sequence of its entries, each a character name and an initiative, kept in descending
  order of score with ties in insertion order; \<^verbatim>\<open>add_init\<close> draws a die and inserts a new
  entry; \<^verbatim>\<open>modify_init\<close> finds the first entry of the character, returns nothing when there
  is none, and otherwise adds the change to the modifier and sorts again.
\<close>

type_synonym manager = "(string \<times> Initiative) list"

definition resort :: "manager \<Rightarrow> manager" where
  "resort m = sort_key (\<lambda>(n, i). - init i) m"

definition add_init :: "nat \<Rightarrow> manager \<Rightarrow> string \<Rightarrow> int \<Rightarrow> Initiative \<times> manager" where
  "add_init raw m character m0 =
     (let i = new_Initiative raw m0 None None in (i, resort (m @ [(character, i)])))"

fun modify_first :: "manager \<Rightarrow> string \<Rightarrow> int \<Rightarrow> (Initiative \<times> manager) option" where
  "modify_first [] character change = None"
| "modify_first ((n, i) # rest) character change =
     (if n = character
      then Some (i\<lparr>imod := imod i + change\<rparr>, (n, i\<lparr>imod := imod i + change\<rparr>) # rest)
      else (case modify_first rest character change of
              None \<Rightarrow> None
            | Some (j, rest') \<Rightarrow> Some (j, (n, i) # rest')))"

definition modify_init :: "manager \<Rightarrow> string \<Rightarrow> int \<Rightarrow> Initiative option \<times> manager" where
  "modify_init m character change =
     (case modify_first m character change of
        None \<Rightarrow> (None, m)
      | Some (i, m') \<Rightarrow> (Some i, resort m'))"

text \<open>
  The state the command works on: the registered tables by channel, the rows written by
  \<^verbatim>\<open>set_initiative\<close> (guild, channel, character, modifier, die), and the count of
  initiative rolls of each guild.
\<close>

record bot =
  tables :: "int \<rightharpoonup> manager"
  initiative_rows :: "(int \<times> int \<times> string \<times> int \<times> int) list"
  initiative_rolls :: "int \<Rightarrow> nat"

record ctx =
  ctx_guild :: "int option"
  ctx_channel :: int
  ctx_display_name :: string
  ctx_invoked_with :: string

record table_embed =
  tbl_title :: string
  tbl_description :: string
  tbl_footer :: string
  tbl_fields :: "(string \<times> string \<times> bool) list"

record response =
  content :: "string option"
  embed :: "table_embed option"

definition em_dash :: string where
  "em_dash = [CHR 0xE2, CHR 0x80, CHR 0x94]"

definition usage :: "string \<Rightarrow> string" where
  "usage prefix =
     ''**Initiative Manager Commands**'' @ [CHR 0x0A]
     @ ''`'' @ prefix @ ''i` '' @ em_dash
     @ '' Show initiative table (if one exists in this channel)'' @ [CHR 0x0A]
     @ ''`'' @ prefix @ ''i <mod> <character>` '' @ em_dash
     @ '' Roll initiative (character optional)'' @ [CHR 0x0A]
     @ ''`'' @ prefix @ ''i dec <action> [-n character] [-c N]` '' @ em_dash
     @ '' Declare a character action'' @ [CHR 0x0A]
     @ ''`'' @ prefix @ ''i remove [character]` '' @ em_dash
     @ '' Remove initiative (character optional)'' @ [CHR 0x0A]
     @ ''`'' @ prefix @ ''i reroll` '' @ em_dash @ '' Reroll all initiatives'' @ [CHR 0x0A]
     @ ''`'' @ prefix @ ''i clear` '' @ em_dash @ '' Clear the table''"

text \<open>
  \<^verbatim>\<open>initiative\<close>. Its arguments besides those of the source: the first prefix of the
  guild, the rendering of a table (\<^verbatim>\<open>str(manager)\<close>) and the raw random number for a new
  die. A manager taken from the registry is the registered object, so a change to it is
  a change to the registry; a manager created by the call is registered by
  \<^verbatim>\<open>add_table\<close> only.
\<close>

definition show_table :: "string \<Rightarrow> (manager \<Rightarrow> string) \<Rightarrow> bot \<Rightarrow> ctx \<Rightarrow> (exn + response) \<times> bot" where
  "show_table prefix render bt ctx =
     (case tables bt (ctx_channel ctx) of
        Some manager \<Rightarrow>
          (Inr \<lparr>content = (if ctx_invoked_with ctx = ''reroll''
                           then Some ''Rerolling initiative!'' else None),
                embed = Some \<lparr>tbl_title = ''Initiative'',
                               tbl_description = render manager,
                               tbl_footer = ''Commands: remove | clear | reroll | declare'',
                               tbl_fields = []\<rparr>\<rparr>, bt)
      | None \<Rightarrow> (Inr \<lparr>content = Some (usage prefix), embed = None\<rparr>, bt))"

definition initiative ::
  "string \<Rightarrow> (manager \<Rightarrow> string) \<Rightarrow> nat \<Rightarrow> bot \<Rightarrow> ctx \<Rightarrow> string option \<Rightarrow> string option
     \<Rightarrow> (exn + response) \<times> bot" where
  "initiative prefix render raw bt ctx md character_name =
     (case md of
        None \<Rightarrow> show_table prefix render bt ctx
      | Some [] \<Rightarrow> show_table prefix render bt ctx
      | Some (c # cs) \<Rightarrow>
          (let registered = tables bt (ctx_channel ctx);
               manager = (case registered of Some m \<Rightarrow> m | None \<Rightarrow> []);
               is_augmenting = (c = CHR ''-'' \<or> c = CHR ''+'')
           in case py_int (c # cs) of
                None \<Rightarrow> (Inr \<lparr>content = Some (usage prefix), embed = None\<rparr>, bt)
              | Some m0 \<Rightarrow>
          (let character = (if truthy character_name then the character_name
                            else ctx_display_name ctx);
               step =
                 (if \<not> is_augmenting
                  then (let (i, manager') = add_init raw manager character m0
                        in Some (i, manager',
                                 bt\<lparr>tables := (tables bt)(ctx_channel ctx \<mapsto> manager')\<rparr>))
                  else (case modify_init manager character m0 of
                          (None, manager') \<Rightarrow> None
                        | (Some i, manager') \<Rightarrow>
                            Some (i, manager',
                                  (case registered of
                                     Some _ \<Rightarrow> bt\<lparr>tables := (tables bt)(ctx_channel ctx \<mapsto> manager')\<rparr>
                                   | None \<Rightarrow> bt))))
           in case step of
                None \<Rightarrow>
                  (Inr \<lparr>content = Some (character @ '' has no initiative to modify!''),
                        embed = None\<rparr>, bt)
              | Some (i, manager', bt') \<Rightarrow>
          (let title = character @ [CHR 0x27] @ ''s Initiative'';
               entry = (if length manager' > 1 then ''entries'' else ''entry'');
               footer = str_int (int (length manager')) @ '' '' @ entry
                        @ '' in table. To see initiative: '' @ prefix @ ''i'';
               footer = (if is_augmenting
                         then ''Initiative modified by '' @ str_plus m0 @ ''.'' @ [CHR 0x0A] @ footer
                         else footer);
               response = \<lparr>content = None,
                           embed = Some \<lparr>tbl_title = title, tbl_description = Initiative_str i,
                                          tbl_footer = footer, tbl_fields = []\<rparr>\<rparr>
           in case ctx_guild ctx of
                None \<Rightarrow> (Inl AttributeError, bt')
              | Some guild \<Rightarrow>
                  (Inr response,
                   bt'\<lparr>initiative_rows := initiative_rows bt'
                                            @ [(guild, ctx_channel ctx, character, imod i, die i)],
                       initiative_rolls := (initiative_rolls bt')
                                             (guild := Suc (initiative_rolls bt' guild))\<rparr>)))))"

section \<open>Splitting off the comment (masquerade.py)\<close>

text \<open>\<^verbatim>\<open>s.index(c)\<close>, with \<open>None\<close> for the \<^verbatim>\<open>ValueError\<close> of a missing character.\<close>

fun py_index :: "char \<Rightarrow> string \<Rightarrow> nat option" where
  "py_index c [] = None"
| "py_index c (x # xs) = (if x = c then Some 0 else map_option Suc (py_index c xs))"

text \<open>\<^verbatim>\<open>s.split(c, 1)\<close>: at most one split, at the first occurrence of the separator.\<close>

fun split_once :: "char \<Rightarrow> string \<Rightarrow> string list" where
  "split_once c [] = [[]]"
| "split_once c (x # xs) =
     (if x = c then [[], xs]
      else (case split_once c xs of
              [] \<Rightarrow> [[x]]
            | h # t \<Rightarrow> (x # h) # t))"

text \<open>
  \<^verbatim>\<open>split_comment\<close> returns the list of the split, or the pair of the raw text and \<^verbatim>\<open>None\<close>.
\<close>

datatype split_result = Parts "string list" | Whole string

definition split_comment :: "string \<Rightarrow> string \<Rightarrow> split_result" where
  "split_comment raw clean =
     (case py_index CHR ''#'' raw of
        None \<Rightarrow> Whole raw
      | Some raw_comment \<Rightarrow>
          (case py_index CHR ''#'' clean of
             None \<Rightarrow> Whole raw
           | Some clean_comment \<Rightarrow>
               (let split_candidate = (if raw_comment = clean_comment then clean else raw)
                in Parts (split_once CHR ''#'' split_candidate))))"



section \<open>Properties\<close>

subsection \<open>Stored rolls\<close>

lemma filter_selected_update:
  assumes "\<And>r. selected g u n (f r) = selected g u n r"
  shows "filter (selected g u n) (sql_update (selected g u n) f db)
       = map f (filter (selected g u n) db)"
  using assms by (simp add: sql_update_def filter_map comp_def)

lemma retrieve_after_store:
  assumes "ilike n n"
  shows "\<exists>c. retrieve_stored_roll (snd (store_roll db g u n syn com)) g u n = Some (syn, c)"
proof (cases "is_roll_stored db g u n")
  case False
  then have "filter (selected g u n) db = []"
    by (auto simp: is_roll_stored_def retrieve_stored_roll_def split: list.splits)
  with False assms show ?thesis
    by (simp add: store_roll_def retrieve_stored_roll_def selected_def)
next
  case True
  then obtain r rs where rs: "filter (selected g u n) db = r # rs"
    by (auto simp: is_roll_stored_def retrieve_stored_roll_def split: list.splits)
  have a: "\<And>r. selected g u n (r\<lparr>Syntax := syn, Comment := com\<rparr>) = selected g u n r"
    by (simp add: selected_def)
  have b: "\<And>r. selected g u n (r\<lparr>Syntax := syn\<rparr>) = selected g u n r"
    by (simp add: selected_def)
  show ?thesis using True rs
    by (simp add: store_roll_def retrieve_stored_roll_def
        filter_selected_update [where f = "\<lambda>r. r\<lparr>Syntax := syn, Comment := com\<rparr>", OF a]
        filter_selected_update [where f = "\<lambda>r. r\<lparr>Syntax := syn\<rparr>", OF b])
qed

lemma py_split_7_6: "py_split ''7 6'' = [''7'', ''6'']"
  by (simp add: py_split_def is_space_def)

lemma py_split_plus2: "py_split ''+2'' = [''+2'']"
  by (simp add: py_split_def is_space_def)

lemma py_int_plus2: "py_int ''+2'' = Some 2"
  by (simp add: py_int_def int_strip_def is_int_space_def is_digit_def digit_val_def)

lemma py_int_7: "py_int ''7'' = Some 7"
  by (simp add: py_int_def int_strip_def is_int_space_def is_digit_def digit_val_def)

lemma py_int_6: "py_int ''6'' = Some 6"
  by (simp add: py_int_def int_strip_def is_int_space_def is_digit_def digit_val_def)

lemma py_int_plus0: "py_int ''+0'' = Some 0"
  by (simp add: py_int_def int_strip_def is_int_space_def is_digit_def digit_val_def)

lemma str_int_small: "str_int 9 = ''9''" "str_int 6 = ''6''" "str_plus 2 = ''+2''"
  by (simp_all add: str_int_def str_plus_def digit_char_def)

text \<open>
  Claim C1. After \<^verbatim>\<open>__store_roll\<close> has stored the macro \<^verbatim>\<open>brawl\<close> with syntax \<^verbatim>\<open>7 6\<close>,
  whatever the table held before and whatever comment came with it, a use of \<^verbatim>\<open>brawl\<close>
  without modifiers returns the command with syntax \<^verbatim>\<open>7 6\<close>, and a use with the one
  modifier \<^verbatim>\<open>+2\<close> returns the command with syntax \<^verbatim>\<open>9 6\<close> and the override text
  \<^verbatim>\<open>Pool +2.\<close> followed by a space.
\<close>

theorem macro_round_trip:
  "let db' = snd (store_roll db guild userid ''brawl'' ''7 6'' com);
       plain = match_stored_roll similar db' c
                 \<lparr>grp_name = ''brawl'', grp_mods = None, grp_sign = None\<rparr> guild userid;
       plus2 = match_stored_roll similar db' c
                 \<lparr>grp_name = ''brawl'', grp_mods = Some ''+2'', grp_sign = Some ''+''\<rparr> guild userid
   in fst plain = ReturnCommand \<and> cmd_syntax (fst (snd plain)) = ''7 6''
      \<and> fst plus2 = ReturnCommand \<and> cmd_syntax (fst (snd plus2)) = ''9 6''
      \<and> cmd_override (fst (snd plus2)) = Some (''Pool +2.'' @ '' '')"
proof -
  have "ilike ''brawl'' ''brawl''" by simp
  from retrieve_after_store [OF this, of db guild userid "''7 6''" com]
  obtain sc where r: "retrieve_stored_roll (snd (store_roll db guild userid ''brawl'' ''7 6'' com))
      guild userid ''brawl'' = Some (''7 6'', sc)" by blast
  show ?thesis
    by (simp add: Let_def match_stored_roll_def r truthy_def finish_def py_split_7_6 py_split_plus2 py_int_plus2 py_int_7 py_int_6 py_int_plus0
        with_default_diff_def is_digit_def isdigit_def str_int_small)
qed



text \<open>
  Claim C3, as stated, fails: a macro with the stored comment \<^verbatim>\<open>stored\<close>, used without
  modifiers by a command that brings the comment \<^verbatim>\<open>given\<close>, returns the command with the
  comment \<^verbatim>\<open>given\<close>, not with the stored one.
\<close>

theorem comment_priority_counterexample:
  "cmd_comment (fst (snd (match_stored_roll (\<lambda>a b. False)
       [\<lparr>ID = 2, Name = ''brawl'', Syntax = ''7 6'', Guild = 1, Comment = Some ''stored''\<rparr>]
       \<lparr>cmd_syntax = ''brawl'', cmd_comment = Some ''given'', cmd_override = None,
        cmd_compact = None\<rparr>
       \<lparr>grp_name = ''brawl'', grp_mods = None, grp_sign = None\<rparr> 1 2)))
   = Some ''given''"
  by (simp add: match_stored_roll_def retrieve_stored_roll_def selected_def truthy_def finish_def)

text \<open>
  Claim C3, amended. On a hit that returns the command (no modifiers, or modifiers that
  are accepted), the command keeps the comment it came with when it has one; the stored
  comment of the macro is used only when the command has none and the macro has one.
\<close>

theorem comment_priority:
  assumes "retrieve_stored_roll db guild userid (grp_name m) = Some (stored, stored_comment)"
      and "match_stored_roll similar db c m guild userid = (ReturnCommand, c', db')"
  shows "cmd_comment c' =
           (if truthy (cmd_comment c) then cmd_comment c
            else if truthy stored_comment then stored_comment
            else cmd_comment c)"
  using assms
  by (auto simp: match_stored_roll_def finish_def Let_def
      split: if_splits list.splits option.splits sum.splits)

text \<open>The amended claim C3 at a macro with a stored comment, used without a comment.\<close>

theorem comment_priority_witness:
  "cmd_comment (fst (snd (match_stored_roll (\<lambda>a b. False)
       [\<lparr>ID = 2, Name = ''brawl'', Syntax = ''7 6'', Guild = 1, Comment = Some ''stored''\<rparr>]
       \<lparr>cmd_syntax = ''brawl'', cmd_comment = None, cmd_override = None, cmd_compact = None\<rparr>
       \<lparr>grp_name = ''brawl'', grp_mods = None, grp_sign = None\<rparr> 1 2)))
   = Some ''stored''"
proof -
  let ?db = "[\<lparr>ID = 2, Name = ''brawl'', Syntax = ''7 6'', Guild = 1, Comment = Some ''stored''\<rparr>]"
  let ?c = "\<lparr>cmd_syntax = ''brawl'', cmd_comment = None, cmd_override = None, cmd_compact = None\<rparr>"
  let ?m = "\<lparr>grp_name = ''brawl'', grp_mods = None, grp_sign = None\<rparr>"
  have r: "retrieve_stored_roll ?db 1 2 (grp_name ?m) = Some (''7 6'', Some ''stored'')"
    by (simp add: retrieve_stored_roll_def selected_def)
  obtain c' db' where m: "match_stored_roll (\<lambda>a b. False) ?db ?c ?m 1 2 = (ReturnCommand, c', db')"
    by (simp add: match_stored_roll_def retrieve_stored_roll_def selected_def truthy_def finish_def)
  from comment_priority [OF r m] have "cmd_comment c' = Some ''stored''"
    by (simp add: truthy_def)
  with m show ?thesis by simp
qed

















subsection \<open>Initiative entries\<close>

text \<open>
  Claim C8. After \<^verbatim>\<open>reroll\<close> the die of an entry is the face drawn from the raw random
  number, a value from 1 to 10; the declared action is \<^verbatim>\<open>None\<close>; the modifier is the one
  the entry had; and the score is the modifier plus the new die.
\<close>

theorem reroll_frame:
  "die (reroll raw i) = 1 + int (raw mod 10)
   \<and> 1 \<le> die (reroll raw i) \<and> die (reroll raw i) \<le> 10
   \<and> action (reroll raw i) = None
   \<and> imod (reroll raw i) = imod i
   \<and> init (reroll raw i) = imod i + die (reroll raw i)"
  by (simp add: reroll_def Traditional_roll_def init_def)

subsection \<open>Splitting off the comment\<close>

lemma py_index_first:
  "py_index c s = (if c \<in> set s then Some (length (takeWhile (\<lambda>x. x \<noteq> c) s)) else None)"
  by (induction s) auto

lemma split_once_first:
  "split_once c s =
     (if c \<in> set s then [takeWhile (\<lambda>x. x \<noteq> c) s, tl (dropWhile (\<lambda>x. x \<noteq> c) s)] else [s])"
  by (induction s) auto

text \<open>
  Claim C9. When \<^verbatim>\<open>#\<close> occurs in the raw text and in the clean text, \<^verbatim>\<open>split_comment\<close>
  returns the two parts around the first \<^verbatim>\<open>#\<close> of the clean text if the first \<^verbatim>\<open>#\<close> is at
  the same index in both texts, and of the raw text if the indices differ; when one of the
  texts has no \<^verbatim>\<open>#\<close> it returns the raw text whole.
\<close>

theorem split_comment_first_hash:
  "split_comment raw clean =
     (if CHR ''#'' \<in> set raw \<and> CHR ''#'' \<in> set clean
      then (let text = (if length (takeWhile (\<lambda>x. x \<noteq> CHR ''#'') raw)
                          = length (takeWhile (\<lambda>x. x \<noteq> CHR ''#'') clean)
                        then clean else raw)
            in Parts [takeWhile (\<lambda>x. x \<noteq> CHR ''#'') text,
                      tl (dropWhile (\<lambda>x. x \<noteq> CHR ''#'') text)])
      else Whole raw)"
  by (simp add: split_comment_def py_index_first split_once_first Let_def)

text \<open>
  Claim C9 at a pair with the first \<^verbatim>\<open>#\<close> at one index, a pair where a mention moves it, and
  two pairs where one text has no \<^verbatim>\<open>#\<close>.
\<close>

theorem split_comment_first_hash_witness:
  "split_comment ''5 6 # hi #x'' ''5 6 # yo #x'' = Parts [''5 6 '', '' yo #x'']
   \<and> split_comment ''<@1> 5 # hi'' ''@a 5 # hi'' = Parts [''<@1> 5 '', '' hi'']
   \<and> split_comment ''5 6'' ''5 # 6'' = Whole ''5 6''
   \<and> split_comment ''5 # 6'' ''5 6'' = Whole ''5 # 6''"
  using split_comment_first_hash [of "''5 6 # hi #x''" "''5 6 # yo #x''"]
        split_comment_first_hash [of "''<@1> 5 # hi''" "''@a 5 # hi''"]
        split_comment_first_hash [of "''5 6''" "''5 # 6''"]
        split_comment_first_hash [of "''5 # 6''" "''5 6''"]
  by simp

subsection \<open>Traditional rolls\<close>

lemma str_nat_nonempty: "str_nat n \<noteq> []"
  by (subst str_nat.simps) (simp del: str_nat.simps)

lemma digit_char_cases:
  "n < 10 \<Longrightarrow> n \<in> {0, 1, 2, 3, 4, 5, 6, 7, 8, 9 :: nat}"
  by simp arith

lemma digit_char_not_plus: "digit_char n = CHR ''+'' \<Longrightarrow> False"
proof -
  assume a: "digit_char n = CHR ''+''"
  have "n mod 10 < 10" by simp
  from digit_char_cases [OF this] a show False
    by (auto simp: digit_char_def)
qed

lemma str_nat_no_plus: "CHR ''+'' \<notin> set (str_nat n)"
proof (induction n rule: str_nat.induct)
  case (1 n)
  show ?case
  proof (cases "n < 10")
    case True
    have "str_nat n = [digit_char n]" using True by (subst str_nat.simps) simp
    thus ?thesis using digit_char_not_plus [of n] by (auto simp del: str_nat.simps)
  next
    case False
    have "str_nat n = str_nat (n div 10) @ [digit_char (n mod 10)]"
      using False by (subst str_nat.simps) simp
    thus ?thesis using 1 [OF False] digit_char_not_plus [of "n mod 10"]
      by (auto simp del: str_nat.simps)
  qed
qed

lemma str_int_nonempty: "str_int i \<noteq> []"
  by (simp add: str_int_def str_nat_nonempty del: str_nat.simps)

lemma str_int_no_plus: "CHR ''+'' \<notin> set (str_int i)"
  by (simp add: str_int_def str_nat_no_plus del: str_nat.simps)

lemma str_nat_single: "str_nat n = [d] \<Longrightarrow> n < 10 \<and> digit_char n = d"
proof (cases "n < 10")
  case True
  assume a: "str_nat n = [d]"
  have "str_nat n = [digit_char n]" using True by (subst str_nat.simps) simp
  with a True show ?thesis by (simp del: str_nat.simps)
next
  case False
  assume a: "str_nat n = [d]"
  have "str_nat n = str_nat (n div 10) @ [digit_char (n mod 10)]"
    using False by (subst str_nat.simps) simp
  with a have "str_nat (n div 10) = []" by (simp del: str_nat.simps)
  with str_nat_nonempty show ?thesis by blast
qed

lemma str_int_digit:
  assumes "str_int i = [d]"
  shows "0 \<le> i \<and> i < 10 \<and> digit_char (nat i) = d"
proof -
  have nn: "\<not> i < 0"
  proof
    assume "i < 0"
    with assms have "str_nat (nat (- i)) = []" by (simp add: str_int_def del: str_nat.simps)
    with str_nat_nonempty show False by blast
  qed
  with assms have "str_nat (nat i) = [d]" by (simp add: str_int_def del: str_nat.simps)
  from str_nat_single [OF this] nn show ?thesis by auto
qed

lemma str_int_4: "str_int i = ''4'' \<Longrightarrow> i = 4"
proof -
  assume a: "str_int i = ''4''"
  from str_int_digit [OF a] have nn: "0 \<le> i" and lt: "nat i < 10"
    and d: "digit_char (nat i) = CHR ''4''" by auto
  from digit_char_cases [OF lt] d have "nat i = 4" by (auto simp: digit_char_def)
  with nn show ?thesis by simp
qed

lemma str_int_5: "str_int i = ''5'' \<Longrightarrow> i = 5"
proof -
  assume a: "str_int i = ''5''"
  from str_int_digit [OF a] have nn: "0 \<le> i" and lt: "nat i < 10"
    and d: "digit_char (nat i) = CHR ''5''" by auto
  from digit_char_cases [OF lt] d have "nat i = 5" by (auto simp: digit_char_def)
  with nn show ?thesis by simp
qed

lemma append_plus_eq:
  assumes "CHR ''+'' \<notin> set x" and "x @ CHR ''+'' # r = ''4+5''"
  shows "x = ''4'' \<and> r = ''5''"
proof (cases x)
  case Nil
  with assms show ?thesis by simp
next
  case (Cons a x')
  with assms have a: "a = CHR ''4''" and r: "x' @ CHR ''+'' # r = ''+5''" by auto
  show ?thesis
  proof (cases x')
    case Nil
    with r a Cons show ?thesis by simp
  next
    case (Cons b x'')
    with r have "b = CHR ''+''" by simp
    with Cons \<open>x = a # x'\<close> assms(1) show ?thesis by simp
  qed
qed

lemma join_plus_4_5:
  assumes "join ''+'' (map str_int rolls) = ''4+5''"
  shows "rolls = [4, 5]"
proof (cases rolls)
  case Nil
  with assms show ?thesis by simp
next
  case (Cons a rest)
  note c1 = Cons
  show ?thesis
  proof (cases rest)
    case Nil
    with c1 assms have "str_int a = ''4+5''" by simp
    hence "CHR ''+'' \<in> set (str_int a)" by simp
    with str_int_no_plus show ?thesis by blast
  next
    case (Cons b rest')
    note c2 = Cons
    from assms c1 c2 have "str_int a @ CHR ''+'' # join ''+'' (map str_int (b # rest')) = ''4+5''"
      by simp
    from append_plus_eq [OF str_int_no_plus this]
    have a4: "str_int a = ''4''" and j: "join ''+'' (map str_int (b # rest')) = ''5''" by auto
    have "rest' = []"
    proof (cases rest')
      case Nil
      then show ?thesis .
    next
      case (Cons c rest'')
      with j have "str_int b @ CHR ''+'' # join ''+'' (map str_int (c # rest'')) = ''5''" by simp
      hence "length (str_int b @ CHR ''+'' # join ''+'' (map str_int (c # rest''))) = 1" by simp
      hence "str_int b = []" by simp
      with str_int_nonempty show ?thesis by blast
    qed
    with j have "str_int b = ''5''" by simp
    with a4 c1 c2 \<open>rest' = []\<close> show ?thesis by (simp add: str_int_4 str_int_5)
  qed
qed

lemma str_int_rolls:
  "str_int 3 = ''3''" "str_int 4 = ''4''" "str_int 5 = ''5''" "str_int 9 = ''9''" "str_int 12 = ''12''"
  by (simp_all add: str_int_def digit_char_def)

lemma split_on_without: "c \<notin> set x \<Longrightarrow> split_on c x = [x]"
  by (induction x) auto

lemma split_on_append: "c \<notin> set x \<Longrightarrow> split_on c (x @ c # r) = x # split_on c r"
  by (induction x) auto

lemma split_on_join:
  "split_on CHR ''+'' (join ''+'' (map str_int (a # rest))) = map str_int (a # rest)"
proof (induction rest arbitrary: a)
  case Nil
  show ?case by (simp add: split_on_without str_int_no_plus)
next
  case (Cons b rest)
  have "join ''+'' (map str_int (a # b # rest))
        = str_int a @ CHR ''+'' # join ''+'' (map str_int (b # rest))" by simp
  then show ?case
    using Cons [of b] by (simp only: split_on_append [OF str_int_no_plus] list.map)
qed

lemma digit_char_digit: "is_digit (digit_char k) \<and> digit_val (digit_char k) = int (k mod 10)"
proof -
  have "k mod 10 < 10" by simp
  from digit_char_cases [OF this] show ?thesis
    by (auto simp: digit_char_def is_digit_def digit_val_def)
qed

lemma str_nat_digits: "list_all is_digit (str_nat n)"
proof (induction n rule: str_nat.induct)
  case (1 n)
  show ?case
  proof (cases "n < 10")
    case True
    have "str_nat n = [digit_char n]" using True by (subst str_nat.simps) simp
    thus ?thesis by (simp add: digit_char_digit del: str_nat.simps)
  next
    case False
    have "str_nat n = str_nat (n div 10) @ [digit_char (n mod 10)]"
      using False by (subst str_nat.simps) simp
    thus ?thesis using 1 [OF False] by (simp add: digit_char_digit del: str_nat.simps)
  qed
qed

lemma digits_value_snoc:
  assumes "list_all is_digit xs" "xs \<noteq> []" "is_digit d"
  shows "digits_value b acc (xs @ [d])
         = map_option (\<lambda>v. v * 10 + digit_val d) (digits_value b acc xs)"
  using assms
proof (induction xs arbitrary: b acc)
  case Nil
  then show ?case by simp
next
  case (Cons x xs)
  show ?case
  proof (cases xs)
    case Nil
    with Cons.prems show ?thesis by simp
  next
    case (Cons y ys)
    with Cons.prems Cons.IH [of True "acc * 10 + digit_val x"] show ?thesis by simp
  qed
qed

lemma digits_value_str_nat: "digits_value b 0 (str_nat n) = Some (int n)"
proof (induction n arbitrary: b rule: str_nat.induct)
  case (1 n)
  show ?case
  proof (cases "n < 10")
    case True
    have "str_nat n = [digit_char n]" using True by (subst str_nat.simps) simp
    thus ?thesis using True by (simp add: digit_char_digit del: str_nat.simps)
  next
    case False
    have s: "str_nat n = str_nat (n div 10) @ [digit_char (n mod 10)]"
      using False by (subst str_nat.simps) simp
    have "digits_value b 0 (str_nat (n div 10) @ [digit_char (n mod 10)])
          = map_option (\<lambda>v. v * 10 + digit_val (digit_char (n mod 10)))
              (digits_value b 0 (str_nat (n div 10)))"
      by (rule digits_value_snoc) (simp_all add: str_nat_digits str_nat_nonempty digit_char_digit
          del: str_nat.simps)
    also have "\<dots> = Some (int (n div 10) * 10 + int (n mod 10))"
      using 1 [OF False, of b] by (simp add: digit_char_digit del: str_nat.simps)
    also have "\<dots> = Some (int n)"
      by (simp add: zdiv_int zmod_int)
    finally show ?thesis using s by (simp del: str_nat.simps)
  qed
qed

lemma digit_not_int_space: "is_digit c \<Longrightarrow> \<not> is_int_space c"
  by (auto simp: is_digit_def is_int_space_def Let_def)

lemma digit_not_sign: "is_digit c \<Longrightarrow> c \<noteq> CHR ''+'' \<and> c \<noteq> CHR ''-''"
  by (auto simp: is_digit_def)

lemma int_strip_no_space:
  assumes "s \<noteq> []" "\<not> is_int_space (hd s)" "\<not> is_int_space (last s)"
  shows "int_strip s = s"
proof -
  have a: "dropWhile is_int_space s = s"
    using assms by (cases s) simp_all
  have "dropWhile is_int_space (rev s) = rev s"
    using assms by (cases "rev s") (simp_all add: hd_rev)
  with a show ?thesis by (simp add: int_strip_def)
qed

lemma int_strip_str_nat: "int_strip (str_nat n) = str_nat n"
proof (rule int_strip_no_space)
  show ne: "str_nat n \<noteq> []" by (rule str_nat_nonempty)
  have d: "list_all is_digit (str_nat n)" by (rule str_nat_digits)
  from ne d show "\<not> is_int_space (hd (str_nat n))"
    by (cases "str_nat n") (simp_all add: digit_not_int_space del: str_nat.simps)
  from ne d show "\<not> is_int_space (last (str_nat n))"
    by (metis digit_not_int_space last_in_set list_all_iff)
qed

lemma py_int_str_nat: "py_int (str_nat n) = Some (int n)"
proof -
  obtain c cs where s: "str_nat n = c # cs"
    using str_nat_nonempty [of n] by (cases "str_nat n") auto
  have "is_digit c" using str_nat_digits [of n] s by (simp del: str_nat.simps)
  then have "c \<noteq> CHR ''+''" "c \<noteq> CHR ''-''" using digit_not_sign by auto
  then have "py_int (str_nat n) = digits_value False 0 (str_nat n)"
    unfolding py_int_def int_strip_str_nat
    using s by (simp del: str_nat.simps digits_value.simps)
  then show ?thesis by (simp add: digits_value_str_nat del: str_nat.simps)
qed

lemma py_int_str_int: "py_int (str_int i) = Some i"
proof (cases "i < 0")
  case False
  then show ?thesis by (simp add: str_int_def py_int_str_nat del: str_nat.simps)
next
  case True
  let ?s = "str_nat (nat (- i))"
  have ne: "?s \<noteq> []" by (rule str_nat_nonempty)
  have "\<not> is_int_space (last ?s)"
    using ne str_nat_digits [of "nat (- i)"] by (metis digit_not_int_space last_in_set list_all_iff)
  then have "int_strip (CHR ''-'' # ?s) = CHR ''-'' # ?s"
    using ne by (intro int_strip_no_space) (simp_all add: is_int_space_def del: str_nat.simps)
  then have "py_int (CHR ''-'' # ?s) = map_option uminus (digits_value False 0 ?s)"
    by (simp add: py_int_def del: str_nat.simps)
  then show ?thesis using True
    by (simp add: str_int_def digits_value_str_nat del: str_nat.simps)
qed

lemma shown_values_join:
  "rolls \<noteq> [] \<Longrightarrow> shown_values (join ''+'' (map str_int rolls)) = map Some rolls"
proof -
  assume "rolls \<noteq> []"
  then obtain a rest where r: "rolls = a # rest" by (cases rolls) auto
  show ?thesis
    unfolding shown_values_def r split_on_join
    by (simp add: py_int_str_int comp_def)
qed

lemma take_three_more: "take (3 + n) (a # b # c # xs) = a # b # c # take n xs"
  by (simp add: numeral_3_eq_3)

text \<open>
  Whatever list \<^verbatim>\<open>roll_from_string\<close> returns, an embed with the description \<^verbatim>\<open>4+5\<close> has the
  result 9.
\<close>

lemma description_4_5_has_result_9:
  assumes "traditional_roll author command (rolls, rolling_initiative) = (suggested, Embed e)"
    and "emb_description e = Some ''4+5''"
  shows "emb_fields e = [(''Result'', ''9'', False)]"
proof -
  from assms have d: "length rolls > 1 \<and> join ''+'' (map str_int rolls) = ''4+5''"
    by (auto simp: traditional_roll_def Let_def split: if_splits)
  hence "rolls = [4, 5]" by (simp add: join_plus_4_5)
  with assms(1) show ?thesis
    by (auto simp: traditional_roll_def Let_def str_int_rolls split: if_splits)
qed

text \<open>
  Claim C6, as stated, fails: the result 12 and the description \<^verbatim>\<open>4+5\<close> do not come
  together. For \<^verbatim>\<open>2d6+3\<close> with the dice 4 and 5, the values that sum to 12 are 4, 5 and 3,
  and the description shows all of them, \<^verbatim>\<open>4+5+3\<close>; and when the description is \<^verbatim>\<open>4+5\<close>,
  the values are 4 and 5 and the result is 9.
\<close>

theorem arithmetic_roll_counterexample:
  "snd (traditional_roll ''Nadea''
     \<lparr>cmd_syntax = ''2d6+3'', cmd_comment = None, cmd_override = None, cmd_compact = None\<rparr>
     ([4, 5, 3], False))
   = Embed \<lparr>emb_author = ''Nadea'', emb_header = ''2d6+3'', emb_color = 0,
            emb_fields = [(''Result'', ''12'', False)], emb_footer = None,
            emb_description = Some ''4+5+3''\<rparr>
   \<and> snd (traditional_roll ''Nadea''
     \<lparr>cmd_syntax = ''2d6+3'', cmd_comment = None, cmd_override = None, cmd_compact = None\<rparr>
     ([4, 5], False))
   = Embed \<lparr>emb_author = ''Nadea'', emb_header = ''2d6+3'', emb_color = 0,
            emb_fields = [(''Result'', ''9'', False)], emb_footer = None,
            emb_description = Some ''4+5''\<rparr>"
  by (simp add: traditional_roll_def truthy_def str_int_rolls)

text \<open>
  Claim C6, amended. When \<^verbatim>\<open>roll_from_string\<close> returns more than one value, the description
  joins all of them with \<^verbatim>\<open>+\<close>, so that the values it shows are the values returned, and
  the result is their sum: in the embed as its description and its one field, and in
  compact mode as the start of the text, \<^verbatim>\<open>description = result\<close>.
\<close>

theorem arithmetic_roll_sum_of_shown:
  assumes "1 < length rolls"
  shows "let description = join ''+'' (map str_int rolls);
             result = str_int (sum_list rolls)
         in shown_values description = map Some rolls
            \<and> (case snd (traditional_roll author command (rolls, rolling_initiative)) of
                  Embed e \<Rightarrow>
                    emb_description e = Some description
                    \<and> emb_fields e = [(''Result'', result, False)]
                | Text s \<Rightarrow>
                    take (length description + 3 + length result) s
                    = description @ '' = '' @ result)"
proof -
  have ne: "rolls \<noteq> []" using assms by auto
  have d: "join ''+'' (map str_int rolls) \<noteq> []"
  proof -
    obtain a rest where "rolls = a # rest" using ne by (cases rolls) auto
    then show ?thesis using str_int_nonempty [of a] by (cases rest) simp_all
  qed
  show ?thesis
    using assms d
    by (simp add: Let_def shown_values_join [OF ne] traditional_roll_def truthy_def
        take_three_more)
qed

text \<open>
  The amended claim C6 at the values 4, 5 and 3 in an embed and at the values 4 and 5 in
  compact mode.
\<close>

theorem arithmetic_roll_sum_of_shown_witness:
  "shown_values ''4+5+3'' = [Some 4, Some 5, Some 3]
   \<and> snd (traditional_roll ''Nadea''
            \<lparr>cmd_syntax = ''2d6+3'', cmd_comment = None, cmd_override = None,
             cmd_compact = None\<rparr> ([4, 5, 3], False))
     = Embed \<lparr>emb_author = ''Nadea'', emb_header = ''2d6+3'', emb_color = 0,
              emb_fields = [(''Result'', ''12'', False)], emb_footer = None,
              emb_description = Some ''4+5+3''\<rparr>
   \<and> shown_values ''4+5'' = [Some 4, Some 5]
   \<and> snd (traditional_roll ''Nadea''
            \<lparr>cmd_syntax = ''2d6'', cmd_comment = None, cmd_override = None,
             cmd_compact = Some ''-c''\<rparr> ([4, 5], False))
     = Text ''4+5 = 9''"
  using arithmetic_roll_sum_of_shown [of "[4, 5, 3]" "''Nadea''"
          "\<lparr>cmd_syntax = ''2d6+3'', cmd_comment = None, cmd_override = None, cmd_compact = None\<rparr>"
          False]
        arithmetic_roll_sum_of_shown [of "[4, 5]" "''Nadea''"
          "\<lparr>cmd_syntax = ''2d6'', cmd_comment = None, cmd_override = None,
            cmd_compact = Some ''-c''\<rparr>" False]
  by (simp add: Let_def str_int_rolls traditional_roll_def truthy_def)

subsection \<open>The initiative command\<close>








subsection \<open>Server settings\<close>

lemma strtobool_True_False:
  "strtobool ''True'' = Some True" "strtobool ''False'' = Some False"
  by (simp_all add: strtobool_def lower_def)

lemma strtobool_py_str: "strtobool (py_str (PBool b)) = Some b"
  by (cases b) (simp_all add: py_str_def strtobool_True_False)

lemma validated_default_diff:
  "2 \<le> i \<Longrightarrow> i \<le> 10 \<Longrightarrow> validated_parameter DEFAULT_DIFF (PInt i) = Inr (PInt i)"
  by (simp add: validated_parameter_def available_parameters_def int_of_def DEFAULT_DIFF_def)

lemma validated_toggle:
  assumes "key \<in> set available_parameters" "key \<noteq> DEFAULT_DIFF" "key \<noteq> PREFIX"
    and "strtobool s = Some b"
  shows "validated_parameter key (PStr s) = Inr (PBool b)"
  using assms by (simp add: validated_parameter_def)

lemma toggles_available:
  "CHRONICLES \<in> set available_parameters" "XPL_ALWAYS \<in> set available_parameters"
  "NULLIFY_ONES \<in> set available_parameters" "NO_BOTCH \<in> set available_parameters"
  by (simp_all add: available_parameters_def XPL_ALWAYS_def)

lemma keys_distinct:
  "distinct [DEFAULT_DIFF, PREFIX, XPL_ALWAYS, NULLIFY_ONES, NO_BOTCH, CHRONICLES]"
  by (simp add: DEFAULT_DIFF_def PREFIX_def XPL_ALWAYS_def NULLIFY_ONES_def NO_BOTCH_def
      CHRONICLES_def)

lemma update_plain:
  assumes "validated_parameter key val = Inr v" "key \<noteq> PREFIX" "key \<noteq> CHRONICLES"
  shows "update db guild key val
         = (Inr (''Setting `'' @ key @ ''` to `'' @ py_str v @ ''`!''), store_parameter db guild key v)"
  using assms by (subst update.simps) (simp add: Let_def)

lemma setting_store_parameter:
  "setting (store_parameter db guild key v) guild k
   = (if k = key then Inr v else setting db guild k)"
  by (simp add: setting_def store_parameter_def settings_for_guild_def dict_set_def dict_get_def
      Let_def split: option.splits)

lemma GuildSettings_store_parameter:
  "GuildSettings (store_parameter db guild key v) = execute_update (GuildSettings db) key v guild"
  by (simp add: store_parameter_def settings_for_guild_def dict_set_def Let_def
      split: option.splits)

lemma execute_update_twice:
  "execute_update (map (\<lambda>(i, row). if Some i = guild then (i, f row) else (i, row)) rows) key v guild
   = map (\<lambda>(i, row). if Some i = guild then (i, (f row)(key \<mapsto> v)) else (i, row)) rows"
  by (induction rows) (auto simp: execute_update_def)

text \<open>
  Claim C5. For every guild and every state, \<^verbatim>\<open>update(guild, "chronicles", s)\<close> with a string
  that \<^verbatim>\<open>strtobool\<close> reads as the truth value \<open>b\<close> returns the message \<^verbatim>\<open>Enabling\<close> or
  \<^verbatim>\<open>Disabling Chronicles of Darkness mode.\<close>, and afterwards the settings of the guild hold
  \<open>b\<close> for \<^verbatim>\<open>chronicles\<close>, \<^verbatim>\<open>xpl_always\<close>, \<^verbatim>\<open>nullify_ones\<close> and \<^verbatim>\<open>no_botch\<close>, and 8 or 6 for
  \<^verbatim>\<open>default_diff\<close>; the row of the guild in the table has the same five values, and the
  other rows are as before.
\<close>

theorem chronicles_composite:
  assumes "strtobool s = Some b"
  shows "fst (update db guild CHRONICLES (PStr s))
           = Inr ((if b then ''Enabling'' else ''Disabling'') @ '' Chronicles of Darkness mode.'')
       \<and> setting (snd (update db guild CHRONICLES (PStr s))) guild CHRONICLES = Inr (PBool b)
       \<and> setting (snd (update db guild CHRONICLES (PStr s))) guild DEFAULT_DIFF
           = Inr (PInt (if b then 8 else 6))
       \<and> setting (snd (update db guild CHRONICLES (PStr s))) guild XPL_ALWAYS = Inr (PBool b)
       \<and> setting (snd (update db guild CHRONICLES (PStr s))) guild NULLIFY_ONES = Inr (PBool b)
       \<and> setting (snd (update db guild CHRONICLES (PStr s))) guild NO_BOTCH = Inr (PBool b)
       \<and> GuildSettings (snd (update db guild CHRONICLES (PStr s)))
           = map (\<lambda>(i, row). if Some i = guild
                               then (i, row(CHRONICLES \<mapsto> PBool b,
                                             DEFAULT_DIFF \<mapsto> PInt (if b then 8 else 6),
                                             XPL_ALWAYS \<mapsto> PBool b, NULLIFY_ONES \<mapsto> PBool b,
                                             NO_BOTCH \<mapsto> PBool b))
                               else (i, row))
               (GuildSettings db)"
proof -
  have v: "validated_parameter CHRONICLES (PStr s) = Inr (PBool b)"
    using assms keys_distinct by (intro validated_toggle) (auto simp: toggles_available)
  have d: "validated_parameter DEFAULT_DIFF (PInt (if b then 8 else 6)) = Inr (PInt (if b then 8 else 6))"
    by (rule validated_default_diff) auto
  have x: "validated_parameter XPL_ALWAYS (PStr (py_str (PBool b))) = Inr (PBool b)"
    using keys_distinct by (intro validated_toggle) (auto simp: toggles_available strtobool_py_str)
  have n: "validated_parameter NULLIFY_ONES (PStr (py_str (PBool b))) = Inr (PBool b)"
    using keys_distinct by (intro validated_toggle) (auto simp: toggles_available strtobool_py_str)
  have z: "validated_parameter NO_BOTCH (PStr (py_str (PBool b))) = Inr (PBool b)"
    using keys_distinct by (intro validated_toggle) (auto simp: toggles_available strtobool_py_str)
  have ne: "DEFAULT_DIFF \<noteq> PREFIX" "DEFAULT_DIFF \<noteq> CHRONICLES" "XPL_ALWAYS \<noteq> PREFIX"
    "XPL_ALWAYS \<noteq> CHRONICLES" "NULLIFY_ONES \<noteq> PREFIX" "NULLIFY_ONES \<noteq> CHRONICLES"
    "NO_BOTCH \<noteq> PREFIX" "NO_BOTCH \<noteq> CHRONICLES" "CHRONICLES \<noteq> PREFIX"
    using keys_distinct by auto
  have u: "update db guild CHRONICLES (PStr s)
           = (Inr ((if b then ''Enabling'' else ''Disabling'') @ '' Chronicles of Darkness mode.''),
              store_parameter
                (store_parameter
                  (store_parameter
                    (store_parameter (store_parameter db guild CHRONICLES (PBool b))
                       guild DEFAULT_DIFF (PInt (if b then 8 else 6)))
                    guild XPL_ALWAYS (PBool b))
                  guild NULLIFY_ONES (PBool b))
                guild NO_BOTCH (PBool b))"
    by (subst update.simps)
       (simp add: v ne Let_def py_truth_def
          update_plain [OF d ne(1) ne(2)] update_plain [OF x ne(3) ne(4)]
          update_plain [OF n ne(5) ne(6)] update_plain [OF z ne(7) ne(8)])
  have rows: "GuildSettings (snd (update db guild CHRONICLES (PStr s)))
           = map (\<lambda>(i, row). if Some i = guild
                               then (i, row(CHRONICLES \<mapsto> PBool b,
                                             DEFAULT_DIFF \<mapsto> PInt (if b then 8 else 6),
                                             XPL_ALWAYS \<mapsto> PBool b, NULLIFY_ONES \<mapsto> PBool b,
                                             NO_BOTCH \<mapsto> PBool b))
                               else (i, row))
               (GuildSettings db)"
    unfolding u snd_conv GuildSettings_store_parameter
    by (simp only: execute_update_def [of "GuildSettings db"] execute_update_twice)
  have cache: "fst (update db guild CHRONICLES (PStr s))
           = Inr ((if b then ''Enabling'' else ''Disabling'') @ '' Chronicles of Darkness mode.'')
       \<and> setting (snd (update db guild CHRONICLES (PStr s))) guild CHRONICLES = Inr (PBool b)
       \<and> setting (snd (update db guild CHRONICLES (PStr s))) guild DEFAULT_DIFF
           = Inr (PInt (if b then 8 else 6))
       \<and> setting (snd (update db guild CHRONICLES (PStr s))) guild XPL_ALWAYS = Inr (PBool b)
       \<and> setting (snd (update db guild CHRONICLES (PStr s))) guild NULLIFY_ONES = Inr (PBool b)
       \<and> setting (snd (update db guild CHRONICLES (PStr s))) guild NO_BOTCH = Inr (PBool b)"
    using keys_distinct by (auto simp: u setting_store_parameter)
  from cache rows show ?thesis by (simp only: simp_thms)
qed

lemma strtobool_true_off: "strtobool ''true'' = Some True" "strtobool ''off'' = Some False"
  by (simp_all add: strtobool_def lower_def)

text \<open>
  Claim C5 at a guild with a row, switched on with \<^verbatim>\<open>true\<close>, and outside any guild, switched
  off with \<^verbatim>\<open>off\<close>.
\<close>

theorem chronicles_composite_witness:
  "fst (update (fetch_all_settings [(1, Map.empty)]) (Some 1) CHRONICLES (PStr ''true''))
     = Inr ''Enabling Chronicles of Darkness mode.''
   \<and> setting (snd (update (fetch_all_settings [(1, Map.empty)]) (Some 1) CHRONICLES (PStr ''true'')))
        (Some 1) DEFAULT_DIFF = Inr (PInt 8)
   \<and> setting (snd (update (fetch_all_settings [(1, Map.empty)]) (Some 1) CHRONICLES (PStr ''true'')))
        (Some 1) NO_BOTCH = Inr (PBool True)
   \<and> fst (update (fetch_all_settings []) None CHRONICLES (PStr ''off''))
     = Inr ''Disabling Chronicles of Darkness mode.''
   \<and> setting (snd (update (fetch_all_settings []) None CHRONICLES (PStr ''off''))) None DEFAULT_DIFF
     = Inr (PInt 6)
   \<and> setting (snd (update (fetch_all_settings []) None CHRONICLES (PStr ''off''))) None XPL_ALWAYS
     = Inr (PBool False)"
  using chronicles_composite [of "''true''" True "fetch_all_settings [(1, Map.empty)]" "Some 1"]
        chronicles_composite [of "''off''" False "fetch_all_settings []" None]
  by (simp add: strtobool_true_off)

lemma py_int_8: "py_int ''8'' = Some 8"
  by (simp add: py_int_def int_strip_def is_int_space_def is_digit_def digit_val_def)

lemma validated_default_diff_8: "validated_parameter DEFAULT_DIFF (PStr ''8'') = Inr (PInt 8)"
  by (simp add: validated_parameter_def available_parameters_def int_of_def py_int_8)

lemma update_default_diff_8:
  "update db guild DEFAULT_DIFF (PStr ''8'')
   = (Inr ''Setting `default_diff` to `8`!'', store_parameter db guild DEFAULT_DIFF (PInt 8))"
proof -
  have ne: "DEFAULT_DIFF \<noteq> PREFIX" "DEFAULT_DIFF \<noteq> CHRONICLES"
    using keys_distinct by auto
  show ?thesis
    using update_plain [OF validated_default_diff_8 ne, of db guild]
    by (simp add: py_str_def str_int_def digit_char_def DEFAULT_DIFF_def)
qed

text \<open>
  Claim C10 fails for two guilds without a row. Both read the one dictionary
  \<^verbatim>\<open>default_params\<close>, which \<^verbatim>\<open>update\<close> writes to: with an empty table, guild 2 reads the
  default difficulty 6; after \<^verbatim>\<open>update(1, "default_diff", "8")\<close> has succeeded, guild 2
  reads 8.
\<close>

theorem update_reaches_other_guild:
  "setting (fetch_all_settings []) (Some 2) DEFAULT_DIFF = Inr (PInt 6)
   \<and> fst (update (fetch_all_settings []) (Some 1) DEFAULT_DIFF (PStr ''8''))
       = Inr ''Setting `default_diff` to `8`!''
   \<and> setting (snd (update (fetch_all_settings []) (Some 1) DEFAULT_DIFF (PStr ''8''))) (Some 2)
         DEFAULT_DIFF = Inr (PInt 8)"
proof -
  have before: "setting (fetch_all_settings []) (Some 2) DEFAULT_DIFF = Inr (PInt 6)"
    by (simp add: setting_def settings_for_guild_def dict_get_def fetch_all_settings_def
        default_params_def Let_def DEFAULT_DIFF_def PREFIX_def)
  have after: "setting (store_parameter (fetch_all_settings []) (Some 1) DEFAULT_DIFF (PInt 8))
                 (Some 2) DEFAULT_DIFF = Inr (PInt 8)"
    by (simp add: setting_def store_parameter_def settings_for_guild_def dict_set_def
        dict_get_def fetch_all_settings_def default_params_def Let_def DEFAULT_DIFF_def
        PREFIX_def)
  show ?thesis
    by (simp only: update_default_diff_8 fst_conv snd_conv before after simp_thms)
qed

text \<open>
  A guild that has a dictionary of its own, as every guild with a row has, keeps its
  values when another guild is updated.
\<close>

lemma setting_store_parameter_own_dictionary:
  assumes "all_settings db g' = Some a'" "g' \<noteq> g" "fst (settings_for_guild db g) \<noteq> a'"
  shows "setting (store_parameter db g key v) g' k = setting db g' k"
  using assms
  by (auto simp: setting_def store_parameter_def settings_for_guild_def dict_set_def dict_get_def
      Let_def split: option.splits)

end
